theory Spec2Isabelle
  imports Complex_Main
begin

section \<open>JavaScript values\<close>

text \<open>
  The fragment of JavaScript values the engine handles: \<open>undefined\<close>, integral numbers
  (scores and round counters are only ever produced by integer arithmetic), \<open>NaN\<close>,
  strings, and plain objects (whose default string conversion is \<open>[object Object]\<close>).
\<close>

datatype jsval = JUndefined | JNum int | JNaN | JStr string | JObject

text \<open>\<open>var COOPERATE = "COOPERATE", DEFECT = "DEFECT";\<close>\<close>

definition COOPERATE :: jsval where
  "COOPERATE = JStr ''COOPERATE''"

definition DEFECT :: jsval where
  "DEFECT = JStr ''DEFECT''"

text \<open>Decimal rendering of a number, as JavaScript's ToString gives for integers.\<close>

fun digits :: "nat \<Rightarrow> string" where
  "digits n = (if n < 10 then [''0123456789'' ! n]
               else digits (n div 10) @ [''0123456789'' ! (n mod 10)])"

declare digits.simps [simp del]

fun toString :: "jsval \<Rightarrow> string" where
  "toString JUndefined = ''undefined''"
| "toString (JNum n) = (if n < 0 then ''-'' @ digits (nat (- n)) else digits (nat n))"
| "toString JNaN = ''NaN''"
| "toString (JStr s) = s"
| "toString JObject = ''[object Object]''"

text \<open>
  The binary \<open>+\<close> operator: an object operand is first converted to the primitive string
  \<open>[object Object]\<close>; if either primitive is a string the result is the concatenation
  of the string conversions; otherwise both are converted to numbers (\<open>undefined\<close> becomes
  \<open>NaN\<close>) and added.
\<close>

fun isStringy :: "jsval \<Rightarrow> bool" where
  "isStringy (JStr s) = True"
| "isStringy JObject = True"
| "isStringy v = False"

fun js_add :: "jsval \<Rightarrow> jsval \<Rightarrow> jsval" where
  "js_add a b =
     (if isStringy a \<or> isStringy b then JStr (toString a @ toString b)
      else (case (a, b) of
              (JNum x, JNum y) \<Rightarrow> JNum (x + y)
            | _ \<Rightarrow> JNaN))"

datatype error = Error string | TypeError string


section \<open>Strategies\<close>

text \<open>
  A strategy is a generator function; calling it gives a generator object or throws.
  A generator object answers \<open>next(arg)\<close> with \<open>{done: false, value: v}\<close>,
  with \<open>{done: true, value: v}\<close>, or by throwing, and moves to its next state.
\<close>

datatype iter = IterValue jsval | IterDone jsval | IterThrow error

codatatype gen = Gen (next_of: "jsval \<Rightarrow> iter \<times> gen")

type_synonym factory = "unit \<Rightarrow> error + gen"

text \<open>The example strategies of the source.\<close>

primcorec greg_gen :: gen where
  "greg_gen = Gen (\<lambda>_. (IterValue COOPERATE, greg_gen))"

definition goodGuyGreg :: factory where
  "goodGuyGreg = (\<lambda>_. Inr greg_gen)"

primcorec steve_gen :: gen where
  "steve_gen = Gen (\<lambda>_. (IterValue DEFECT, steve_gen))"

definition scumbagSteve :: factory where
  "scumbagSteve = (\<lambda>_. Inr steve_gen)"

text \<open>
  \<open>HighExpectationsAsianFather\<close>: the first resume runs to the first \<open>yield COOPERATE\<close>
  (its argument is dropped); while suspended in the \<open>do\<close> loop, a resume with COOPERATE
  yields COOPERATE again and anything else leaves the loop for \<open>while (true) yield DEFECT\<close>.
\<close>

primcorec father_loop :: gen where
  "father_loop = Gen (\<lambda>otherPlayerMove.
     if otherPlayerMove = COOPERATE then (IterValue COOPERATE, father_loop)
     else (IterValue DEFECT, steve_gen))"

definition father_gen :: gen where
  "father_gen = Gen (\<lambda>_. (IterValue COOPERATE, father_loop))"

definition HighExpectationsAsianFather :: factory where
  "HighExpectationsAsianFather = (\<lambda>_. Inr father_gen)"


section \<open>Match\<close>

text \<open>
  Calls into strategy code are recorded as events, in the order in which they happen:
  the call of the factory of player n, and the resume of the generator of player n with
  its argument. Console output is not modelled.
\<close>

datatype event = Invoked nat | Resumed nat jsval

datatype status = Paused | Running | Done

text \<open>
  The fields of a Match object. \<open>_g1\<close> and \<open>_g2\<close> are \<open>None\<close> while the property is not
  set; \<open>scoreChange1/2\<close> likewise; a property that holds a move reads \<open>undefined\<close>
  until it is assigned. The field \<open>round\<close> is called \<open>round_ctr\<close> here.
\<close>

record match =
  round_ctr :: int
  roundLimit :: int
  score1 :: int
  score2 :: int
  lastMove1 :: jsval
  lastMove2 :: jsval
  lastScore1 :: jsval
  lastScore2 :: jsval
  status :: status
  g1 :: "gen option"
  g2 :: "gen option"
  scoreChange1 :: "int option"
  scoreChange2 :: "int option"
  prevMove1 :: jsval
  prevMove2 :: jsval

text \<open>\<open>match["score" + k] = v\<close> and \<open>match["_g" + n] = gen\<close>, for the players 1 and 2.\<close>

definition set_score :: "nat \<Rightarrow> int \<Rightarrow> match \<Rightarrow> match" where
  "set_score k v m =
     (if k = 1 then m\<lparr>score1 := v\<rparr> else if k = 2 then m\<lparr>score2 := v\<rparr> else m)"

definition set_g :: "nat \<Rightarrow> gen \<Rightarrow> match \<Rightarrow> match" where
  "set_g n gen m =
     (if n = 1 then m\<lparr>g1 := Some gen\<rparr> else if n = 2 then m\<lparr>g2 := Some gen\<rparr> else m)"

text \<open>
  \<open>setupMatchPlayer(match, n, genfn)\<close>: the \<open>catch\<close> branch is the forfeit; the result
  is the returned boolean, the match after the call, and the events.
\<close>

definition setupMatchPlayer :: "match \<Rightarrow> nat \<Rightarrow> factory \<Rightarrow> bool \<times> match \<times> event list" where
  "setupMatchPlayer m n genfn =
     (case genfn () of
        Inl exc \<Rightarrow>
          (False, set_score (3 - n) (roundLimit m * 5) (m\<lparr>status := Done\<rparr>), [Invoked n])
      | Inr gen \<Rightarrow> (True, set_g n gen m, [Invoked n]))"

text \<open>
  The constructor \<open>Match(player1, player2, rounds)\<close>. The \<open>&&\<close> evaluates the second
  call only when the first returned true.
\<close>

definition Match :: "factory \<Rightarrow> factory \<Rightarrow> int \<Rightarrow> match \<times> event list" where
  "Match player1 player2 rounds =
     (let this = \<lparr>round_ctr = 0, roundLimit = rounds, score1 = 0, score2 = 0,
                  lastMove1 = JUndefined, lastMove2 = JUndefined,
                  lastScore1 = JUndefined, lastScore2 = JUndefined,
                  status = Paused, g1 = None, g2 = None,
                  scoreChange1 = None, scoreChange2 = None,
                  prevMove1 = JUndefined, prevMove2 = JUndefined\<rparr>
      in case setupMatchPlayer this 1 player1 of
           (False, this1, ev1) \<Rightarrow> (this1, ev1)
         | (True, this1, ev1) \<Rightarrow>
             (case setupMatchPlayer this1 2 player2 of
                (r, this2, ev2) \<Rightarrow> (this2, ev1 @ ev2)))"

text \<open>
  \<open>match._logError(new Error(msg))\<close>: the constructor sets no property \<open>_logError\<close> and
  the prototype has only \<open>playRound\<close> and \<open>playMatch\<close>, so the property reads \<open>undefined\<close>
  and the call throws a TypeError.
\<close>

definition logError :: "match \<Rightarrow> string \<Rightarrow> error + unit" where
  "logError m msg = Inl (TypeError ''match._logError is not a function'')"

text \<open>
  \<open>getNextMove(match, name, gen, arg)\<close>: the result is the returned move or the exception
  that the call threw, then the generator after the call, then the events. For a
  generator that is done and for a value that is not a move, \<open>return undefined\<close> comes
  after the call of \<open>_logError\<close>. Calling \<open>next\<close> on a property that was never set is a
  TypeError.
\<close>

definition getNextMove ::
  "match \<Rightarrow> nat \<Rightarrow> gen option \<Rightarrow> jsval \<Rightarrow> (error + jsval) \<times> gen option \<times> event list" where
  "getNextMove m name gen arg =
     (case gen of
        None \<Rightarrow> (Inl (TypeError ''gen is undefined''), None, [])
      | Some g \<Rightarrow>
          (case next_of g arg of
             (IterThrow exc, g') \<Rightarrow> (Inl exc, Some g', [Resumed name arg])
           | (IterDone v, g') \<Rightarrow>
               (case logError m (''Player '' @ toString (JNum (int name))
                                 @ '' returned without yielding!'') of
                  Inl exc \<Rightarrow> (Inl exc, Some g', [Resumed name arg])
                | Inr u \<Rightarrow> (Inr JUndefined, Some g', [Resumed name arg]))
           | (IterValue move, g') \<Rightarrow>
               (if move \<noteq> COOPERATE \<and> move \<noteq> DEFECT
                then (case logError m (''Player '' @ toString (JNum (int name))
                         @ '' made an illegal move (please yield COOPERATE or DEFECT)'') of
                        Inl exc \<Rightarrow> (Inl exc, Some g', [Resumed name arg])
                      | Inr u \<Rightarrow> (Inr JUndefined, Some g', [Resumed name arg]))
                else (Inr move, Some g', [Resumed name arg]))))"

text \<open>The scoring of two proper moves (the nested \<open>if\<close> of \<open>playRound\<close>).\<close>

definition scoreChanges :: "jsval \<Rightarrow> jsval \<Rightarrow> int \<times> int" where
  "scoreChanges move1 move2 =
     (if move1 = COOPERATE
      then (if move2 = COOPERATE then (3, 3) else (0, 5))
      else (if move2 = COOPERATE then (5, 0) else (1, 1)))"

text \<open>
  \<open>playRound\<close> either throws at once, or returns a promise whose executor has already
  run: the promise is resolved with the match, or rejected with the exception that
  escaped the executor.
\<close>

datatype outcome = Throws error | Resolved | Rejected error

definition forfeitRound :: "match \<Rightarrow> jsval \<Rightarrow> jsval \<Rightarrow> match" where
  "forfeitRound self move1 move2 =
     (let c1 = (if move1 = JUndefined then 0 else 5 * (roundLimit self - round_ctr self));
          c2 = (if move2 = JUndefined then 0 else 5 * (roundLimit self - round_ctr self))
      in self\<lparr>scoreChange1 := Some c1, scoreChange2 := Some c2,
               score1 := score1 self + c1, score2 := score2 self + c2,
               status := Done\<rparr>)"

definition scoreRound :: "match \<Rightarrow> jsval \<Rightarrow> jsval \<Rightarrow> match" where
  "scoreRound self move1 move2 =
     (case scoreChanges move1 move2 of
        (c1, c2) \<Rightarrow>
          self\<lparr>scoreChange1 := Some c1, scoreChange2 := Some c2,
                score1 := score1 self + c1, score2 := score2 self + c2,
                prevMove1 := move1, prevMove2 := move2,
                round_ctr := round_ctr self + 1,
                status := (if round_ctr self + 1 \<ge> roundLimit self then Done else Paused)\<rparr>)"

definition playRound :: "match \<Rightarrow> outcome \<times> match \<times> event list" where
  "playRound this =
     (if status this = Running
      then (Throws (Error ''Dilemma.Match.playRound: The match is already running.''), this, [])
      else if status this = Done
      then (Throws (Error ''Dilemma.Match.playRound: The match is already over.''), this, [])
      else
        let self = this\<lparr>status := Running\<rparr> in
        case getNextMove self 1 (g1 self) (lastMove2 self) of
          (Inl exc, gen1, ev1) \<Rightarrow> (Rejected exc, self\<lparr>g1 := gen1\<rparr>, ev1)
        | (Inr move1, gen1, ev1) \<Rightarrow>
            (let self = self\<lparr>g1 := gen1\<rparr> in
             case getNextMove self 2 (g2 self) (lastMove1 self) of
               (Inl exc, gen2, ev2) \<Rightarrow> (Rejected exc, self\<lparr>g2 := gen2\<rparr>, ev1 @ ev2)
             | (Inr move2, gen2, ev2) \<Rightarrow>
                 (let self = self\<lparr>g2 := gen2\<rparr> in
                  if move1 = JUndefined \<or> move2 = JUndefined
                  then (Resolved, forfeitRound self move1 move2, ev1 @ ev2)
                  else (Resolved, scoreRound self move1 move2, ev1 @ ev2))))"

text \<open>The match after one call of \<open>playRound\<close>, whatever the call's outcome, and after n calls.\<close>

definition advance :: "match \<Rightarrow> match" where
  "advance m = fst (snd (playRound m))"

fun playRounds :: "nat \<Rightarrow> match \<Rightarrow> match" where
  "playRounds 0 m = m"
| "playRounds (Suc n) m = playRounds n (advance m)"


section \<open>Tournament\<close>

record tournament =
  players :: "factory list"
  matches :: "match list list"
  scores :: "int list"

text \<open>
  The constructor: row i of \<open>matches\<close> holds \<open>new Match(players[i], players[j], rounds)\<close>
  for j = 0, ..., i - 1.
\<close>

definition Tournament :: "factory list \<Rightarrow> int \<Rightarrow> tournament" where
  "Tournament ps rounds =
     \<lparr>players = ps,
      matches = map (\<lambda>i. map (\<lambda>j. fst (Match (ps ! i) (ps ! j) rounds)) [0..<i])
                    [0..<length ps],
      scores = replicate (length ps) 0\<rparr>"

text \<open>
  \<open>xs[i]\<close> for an array and a number: the element when the number is an index of the
  array, \<open>undefined\<close> (here \<open>None\<close>) otherwise.
\<close>

definition js_index :: "'a list \<Rightarrow> rat \<Rightarrow> 'a option" where
  "js_index xs i =
     (if of_int \<lfloor>i\<rfloor> = i \<and> 0 \<le> i \<and> \<lfloor>i\<rfloor> < int (length xs)
      then Some (xs ! nat \<lfloor>i\<rfloor>) else None)"

text \<open>
  \<open>getMatch(i1, i2)\<close> for numbers: the guard of the source, then \<open>this.matches[i1][i2]\<close>,
  where reading a property of \<open>undefined\<close> is a TypeError and a missing element is
  \<open>undefined\<close>.
\<close>

definition getMatch :: "tournament \<Rightarrow> rat \<Rightarrow> rat \<Rightarrow> error + match option" where
  "getMatch t i1 i2 =
     (if of_int \<lfloor>i1\<rfloor> \<noteq> i1 \<or> i1 \<ge> of_nat (length (players t))
         \<or> of_int \<lfloor>i2\<rfloor> \<noteq> i2 \<or> i2 \<ge> i1
      then Inl (Error ''Tournament.getMatch: invalid argument'')
      else (case js_index (matches t) i1 of
              None \<Rightarrow> Inl (TypeError ''this.matches[i1] is undefined'')
            | Some row \<Rightarrow> Inr (js_index row i2)))"

text \<open>
  \<open>getScore(i)\<close>: both loops add \<open>this.matches[a][b]\<close>, the Match object itself, to
  \<open>score\<close> with \<open>+=\<close>.
\<close>

definition cell :: "tournament \<Rightarrow> nat \<Rightarrow> nat \<Rightarrow> error + jsval" where
  "cell t a b =
     (if a < length (matches t)
      then (if b < length (matches t ! a) then Inr JObject else Inr JUndefined)
      else Inl (TypeError ''this.matches[...] is undefined''))"

fun addCells :: "tournament \<Rightarrow> (nat \<times> nat) list \<Rightarrow> jsval \<Rightarrow> error + jsval" where
  "addCells t [] score = Inr score"
| "addCells t ((a, b) # rest) score =
     (case cell t a b of
        Inl exc \<Rightarrow> Inl exc
      | Inr v \<Rightarrow> addCells t rest (js_add score v))"

definition getScore :: "tournament \<Rightarrow> nat \<Rightarrow> error + jsval" where
  "getScore t i =
     (case addCells t (map (\<lambda>j. (i, j)) [0..<i]) (JNum 0) of
        Inl exc \<Rightarrow> Inl exc
      | Inr score \<Rightarrow> addCells t (map (\<lambda>j. (j, i)) [i + 1..<length (players t)]) score)"

text \<open>
  The sum that the accessor is documented to return: player i's own score in every match
  of row i (where i is player 1) and of column i (where i is player 2).
\<close>

definition attributedScore :: "tournament \<Rightarrow> nat \<Rightarrow> int" where
  "attributedScore t i =
     (\<Sum>j \<leftarrow> [0..<i]. score1 (matches t ! i ! j))
     + (\<Sum>j \<leftarrow> [i + 1..<length (players t)]. score2 (matches t ! j ! i))"


section \<open>The legacy driver\<close>

text \<open>
  \<open>play\<close> of \<open>dilemma.js\<close>: its \<open>getNextMove\<close> throws where the Match's one logs, and nothing
  catches an exception of a factory or of a generator.
\<close>

definition legacy_getNextMove :: "nat \<Rightarrow> gen \<Rightarrow> jsval \<Rightarrow> error + jsval \<times> gen" where
  "legacy_getNextMove name g arg =
     (case next_of g arg of
        (IterThrow exc, g') \<Rightarrow> Inl exc
      | (IterDone v, g') \<Rightarrow>
          Inl (Error (''Player '' @ toString (JNum (int name)) @ '' returned without yielding!''))
      | (IterValue move, g') \<Rightarrow>
          (if move \<noteq> COOPERATE \<and> move \<noteq> DEFECT
           then Inl (Error (''Player '' @ toString (JNum (int name))
                  @ '' made an illegal move (please yield COOPERATE or DEFECT)''))
           else Inr (move, g')))"

definition legacy_adjust :: "jsval \<Rightarrow> jsval \<Rightarrow> int \<times> int \<Rightarrow> int \<times> int" where
  "legacy_adjust move1 move2 s =
     (case s of (s1, s2) \<Rightarrow>
        if move1 = COOPERATE
        then (if move2 = COOPERATE then (s1 + 3, s2 + 3) else (s1, s2 + 5))
        else (if move2 = COOPERATE then (s1 + 5, s2) else (s1 + 1, s2 + 1)))"

fun legacy_loop ::
  "nat \<Rightarrow> gen \<Rightarrow> gen \<Rightarrow> jsval \<Rightarrow> jsval \<Rightarrow> int \<times> int \<Rightarrow> error + int \<times> int" where
  "legacy_loop 0 gen1 gen2 prev1 prev2 s = Inr s"
| "legacy_loop (Suc k) gen1 gen2 prev1 prev2 s =
     (case legacy_getNextMove 1 gen1 prev2 of
        Inl exc \<Rightarrow> Inl exc
      | Inr (move1, gen1') \<Rightarrow>
          (case legacy_getNextMove 2 gen2 prev1 of
             Inl exc \<Rightarrow> Inl exc
           | Inr (move2, gen2') \<Rightarrow>
               legacy_loop k gen1' gen2' move1 move2 (legacy_adjust move1 move2 s)))"

definition play :: "factory \<Rightarrow> factory \<Rightarrow> int \<Rightarrow> error + int \<times> int" where
  "play player1 player2 rounds =
     (case player1 () of
        Inl exc \<Rightarrow> Inl exc
      | Inr gen1 \<Rightarrow>
          (case player2 () of
             Inl exc \<Rightarrow> Inl exc
           | Inr gen2 \<Rightarrow> legacy_loop (nat rounds) gen1 gen2 JUndefined JUndefined (0, 0)))"


section \<open>Strategies that break the contract\<close>

text \<open>
  \<open>function* () {}\<close> returns without yielding; \<open>function* () { yield COOPERATE; }\<close>
  makes one move and returns on its second resume;
  \<open>function* () { throw new Error("boom"); }\<close> throws on its first resume and is finished
  afterwards; the last factory throws when it is called.
\<close>

primcorec quitter_gen :: gen where
  "quitter_gen = Gen (\<lambda>_. (IterDone JUndefined, quitter_gen))"

definition quitter :: factory where
  "quitter = (\<lambda>_. Inr quitter_gen)"

definition oneMove_gen :: gen where
  "oneMove_gen = Gen (\<lambda>_. (IterValue COOPERATE, quitter_gen))"

definition oneMove :: factory where
  "oneMove = (\<lambda>_. Inr oneMove_gen)"

definition thrower_gen :: gen where
  "thrower_gen = Gen (\<lambda>_. (IterThrow (Error ''boom''), quitter_gen))"

definition thrower :: factory where
  "thrower = (\<lambda>_. Inr thrower_gen)"

definition failing :: factory where
  "failing = (\<lambda>_. Inl (Error ''boom''))"


section \<open>Notions of the specification\<close>

text \<open>
  The answer of a resume is a proper move, or it is improper: the generator is done, or
  the value is not a move. (A resume that throws is neither.)
\<close>

fun proper :: "iter \<Rightarrow> bool" where
  "proper (IterValue v) = (v = COOPERATE \<or> v = DEFECT)"
| "proper r = False"

fun improper :: "iter \<Rightarrow> bool" where
  "improper (IterValue v) = (v \<noteq> COOPERATE \<and> v \<noteq> DEFECT)"
| "improper (IterDone v) = True"
| "improper (IterThrow exc) = False"

text \<open>A forfeit occurs at construction when a factory throws.\<close>

definition constructionForfeited :: "factory \<Rightarrow> factory \<Rightarrow> bool" where
  "constructionForfeited player1 player2 = (isl (player1 ()) \<or> isl (player2 ()))"

text \<open>
  The invariant of a match with round limit \<open>rl\<close>, where \<open>f\<close> says whether a forfeit
  occurred at construction.
\<close>

definition inv_match :: "int \<Rightarrow> bool \<Rightarrow> match \<Rightarrow> bool" where
  "inv_match rl f m =
     (roundLimit m = rl \<and> 0 \<le> round_ctr m \<and> round_ctr m \<le> rl
      \<and> (status m = Done \<longleftrightarrow> round_ctr m = rl \<or> f))"

text \<open>The match that the constructor returns, after n calls of \<open>playRound\<close>.\<close>

definition played :: "factory \<Rightarrow> factory \<Rightarrow> int \<Rightarrow> nat \<Rightarrow> match" where
  "played player1 player2 rounds n = playRounds n (fst (Match player1 player2 rounds))"


section \<open>The payoff table\<close>

lemma moves_defined [simp]:
  "COOPERATE \<noteq> JUndefined" "DEFECT \<noteq> JUndefined" "COOPERATE \<noteq> DEFECT"
  "JUndefined \<noteq> COOPERATE" "JUndefined \<noteq> DEFECT" "DEFECT \<noteq> COOPERATE"
  by (simp_all add: COOPERATE_def DEFECT_def)

text \<open>The nested \<open>if\<close> of the Match and that of the legacy driver, at the four pairs of moves.\<close>

lemma scoreChanges_table:
  "scoreChanges COOPERATE COOPERATE = (3, 3)"
  "scoreChanges COOPERATE DEFECT = (0, 5)"
  "scoreChanges DEFECT COOPERATE = (5, 0)"
  "scoreChanges DEFECT DEFECT = (1, 1)"
  by (simp_all add: scoreChanges_def)

lemma legacy_adjust_table:
  "legacy_adjust COOPERATE COOPERATE (s1, s2) = (s1 + 3, s2 + 3)"
  "legacy_adjust COOPERATE DEFECT (s1, s2) = (s1 + 0, s2 + 5)"
  "legacy_adjust DEFECT COOPERATE (s1, s2) = (s1 + 5, s2 + 0)"
  "legacy_adjust DEFECT DEFECT (s1, s2) = (s1 + 1, s2 + 1)"
  by (simp_all add: legacy_adjust_def)

text \<open>
  C7, as amended: for two proper moves the two score changes of a round add up to 6 when
  both players cooperate, to 5 when exactly one of them defects, and to 2 when both
  defect.
\<close>

theorem payoff_sum:
  assumes "move1 = COOPERATE \<or> move1 = DEFECT" and "move2 = COOPERATE \<or> move2 = DEFECT"
  shows "fst (scoreChanges move1 move2) + snd (scoreChanges move1 move2)
           = (if move1 = DEFECT \<and> move2 = DEFECT then 2
              else if move1 = COOPERATE \<and> move2 = COOPERATE then 6 else 5)
       \<and> fst (legacy_adjust move1 move2 (a, b)) + snd (legacy_adjust move1 move2 (a, b))
           = a + b + (if move1 = DEFECT \<and> move2 = DEFECT then 2
                      else if move1 = COOPERATE \<and> move2 = COOPERATE then 6 else 5)"
  using assms by (auto simp: scoreChanges_def legacy_adjust_def)

theorem payoff_sum_witness:
  "(DEFECT = COOPERATE \<or> DEFECT = DEFECT) \<and> (COOPERATE = COOPERATE \<or> COOPERATE = DEFECT) \<and>
   fst (scoreChanges DEFECT COOPERATE) + snd (scoreChanges DEFECT COOPERATE) = 5 \<and>
   fst (scoreChanges DEFECT DEFECT) + snd (scoreChanges DEFECT DEFECT) = 2 \<and>
   fst (scoreChanges COOPERATE COOPERATE) + snd (scoreChanges COOPERATE COOPERATE) = 6"
  using payoff_sum [of DEFECT COOPERATE 0 0] payoff_sum [of DEFECT DEFECT 0 0]
    payoff_sum [of COOPERATE COOPERATE 0 0]
  by simp

text \<open>
  The sum is not 6 whenever the players do not both defect: a cooperator and a defector
  share 5 points.
\<close>

theorem payoff_sum_counterexample:
  "fst (scoreChanges COOPERATE DEFECT) + snd (scoreChanges COOPERATE DEFECT) \<noteq> 6
   \<and> \<not> (COOPERATE = DEFECT \<and> DEFECT = DEFECT)
   \<and> fst (legacy_adjust COOPERATE DEFECT (0, 0)) + snd (legacy_adjust COOPERATE DEFECT (0, 0)) \<noteq> 6"
  by (simp add: scoreChanges_def legacy_adjust_def)


section \<open>Construction\<close>

text \<open>The three results of the constructor, by what the factories do.\<close>

lemma Match_first_fails:
  "player1 () = Inl exc \<Longrightarrow>
   Match player1 player2 rounds =
     (\<lparr>round_ctr = 0, roundLimit = rounds, score1 = 0, score2 = rounds * 5,
       lastMove1 = JUndefined, lastMove2 = JUndefined,
       lastScore1 = JUndefined, lastScore2 = JUndefined,
       status = Done, g1 = None, g2 = None,
       scoreChange1 = None, scoreChange2 = None,
       prevMove1 = JUndefined, prevMove2 = JUndefined\<rparr>, [Invoked 1])"
  by (simp add: Match_def setupMatchPlayer_def set_score_def)

lemma Match_second_fails:
  "player1 () = Inr gen1 \<Longrightarrow> player2 () = Inl exc \<Longrightarrow>
   Match player1 player2 rounds =
     (\<lparr>round_ctr = 0, roundLimit = rounds, score1 = rounds * 5, score2 = 0,
       lastMove1 = JUndefined, lastMove2 = JUndefined,
       lastScore1 = JUndefined, lastScore2 = JUndefined,
       status = Done, g1 = Some gen1, g2 = None,
       scoreChange1 = None, scoreChange2 = None,
       prevMove1 = JUndefined, prevMove2 = JUndefined\<rparr>, [Invoked 1, Invoked 2])"
  by (simp add: Match_def setupMatchPlayer_def set_score_def set_g_def)

lemma Match_both_succeed:
  "player1 () = Inr gen1 \<Longrightarrow> player2 () = Inr gen2 \<Longrightarrow>
   Match player1 player2 rounds =
     (\<lparr>round_ctr = 0, roundLimit = rounds, score1 = 0, score2 = 0,
       lastMove1 = JUndefined, lastMove2 = JUndefined,
       lastScore1 = JUndefined, lastScore2 = JUndefined,
       status = Paused, g1 = Some gen1, g2 = Some gen2,
       scoreChange1 = None, scoreChange2 = None,
       prevMove1 = JUndefined, prevMove2 = JUndefined\<rparr>, [Invoked 1, Invoked 2])"
  by (simp add: Match_def setupMatchPlayer_def set_score_def set_g_def)

lemma playRound_done:
  "status m = Done \<Longrightarrow>
   playRound m = (Throws (Error ''Dilemma.Match.playRound: The match is already over.''), m, [])"
  by (simp add: playRound_def)

text \<open>
  C4: when a factory throws during construction (the first one, or the second one after
  the first returned a generator), the constructor still returns a match. It is done, no
  round was played, the player whose factory threw has score 0 and the other player has
  5 times the round limit; a further \<open>playRound\<close> is refused and leaves it as it is.
\<close>

theorem factory_failure_forfeits:
  assumes "player1 () = Inl exc \<or> (player1 () = Inr gen1 \<and> player2 () = Inl exc)"
  shows "\<exists>m ev. Match player1 player2 rounds = (m, ev)
           \<and> status m = Done \<and> round_ctr m = 0
           \<and> (if isl (player1 ()) then score1 m = 0 \<and> score2 m = 5 * rounds
               else score1 m = 5 * rounds \<and> score2 m = 0)
           \<and> playRound m
               = (Throws (Error ''Dilemma.Match.playRound: The match is already over.''), m, [])"
  using assms
proof
  assume "player1 () = Inl exc"
  then show ?thesis
    by (simp add: Match_first_fails [of player1 exc] playRound_done)
next
  assume "player1 () = Inr gen1 \<and> player2 () = Inl exc"
  then show ?thesis
    by (simp add: Match_second_fails [of player1 gen1 player2 exc] playRound_done)
qed

theorem factory_failure_forfeits_witness:
  "failing () = Inl (Error ''boom'')
   \<and> status (fst (Match failing goodGuyGreg 10)) = Done
   \<and> score1 (fst (Match failing goodGuyGreg 10)) = 0
   \<and> score2 (fst (Match failing goodGuyGreg 10)) = 50
   \<and> goodGuyGreg () = Inr greg_gen
   \<and> status (fst (Match goodGuyGreg failing 10)) = Done
   \<and> score1 (fst (Match goodGuyGreg failing 10)) = 50
   \<and> score2 (fst (Match goodGuyGreg failing 10)) = 0"
proof -
  have h1: "failing () = Inl (Error ''boom'')" by (simp add: failing_def)
  have h2: "goodGuyGreg () = Inr greg_gen" by (simp add: goodGuyGreg_def)
  from h1 have a: "failing () = Inl (Error ''boom'')
      \<or> (failing () = Inr greg_gen \<and> goodGuyGreg () = Inl (Error ''boom''))" by simp
  from h1 h2 have b: "goodGuyGreg () = Inl (Error ''boom'')
      \<or> (goodGuyGreg () = Inr greg_gen \<and> failing () = Inl (Error ''boom''))" by simp
  from factory_failure_forfeits [of failing "Error ''boom''" greg_gen goodGuyGreg 10, OF a]
    factory_failure_forfeits [of goodGuyGreg "Error ''boom''" greg_gen failing 10, OF b] h1 h2
  show ?thesis by auto
qed

text \<open>
  C10: when the factory of player 1 throws, the factory of player 2 is not called: the
  only call is that of player 1, no generator is stored for player 2, the match is done
  with score 0 for player 1 and 5 times the round limit for player 2, and the result is
  the same whatever the second factory is.
\<close>

theorem first_failure_skips_second:
  assumes "player1 () = Inl exc"
  shows "snd (Match player1 player2 rounds) = [Invoked 1]
       \<and> status (fst (Match player1 player2 rounds)) = Done
       \<and> score1 (fst (Match player1 player2 rounds)) = 0
       \<and> score2 (fst (Match player1 player2 rounds)) = 5 * rounds
       \<and> g2 (fst (Match player1 player2 rounds)) = None
       \<and> Match player1 player2 rounds = Match player1 other rounds"
  using assms by (simp add: Match_first_fails [of player1 exc])

theorem first_failure_skips_second_witness:
  "failing () = Inl (Error ''boom'')
   \<and> snd (Match failing failing 10) = [Invoked 1]
   \<and> status (fst (Match failing failing 10)) = Done
   \<and> score1 (fst (Match failing failing 10)) = 0
   \<and> score2 (fst (Match failing failing 10)) = 50
   \<and> Match failing failing 10 = Match failing goodGuyGreg 10"
proof -
  have h: "failing () = Inl (Error ''boom'')" by (simp add: failing_def)
  from first_failure_skips_second [of failing "Error ''boom''" failing 10 goodGuyGreg, OF h] h
  show ?thesis by auto
qed


section \<open>One round\<close>

lemmas run_defs = played_def Match_def setupMatchPlayer_def set_score_def set_g_def
  advance_def playRound_def getNextMove_def logError_def forfeitRound_def scoreRound_def
  scoreChanges_def Let_def

lemma getNextMove_throw:
  "next_of g arg = (IterThrow exc, g') \<Longrightarrow>
   getNextMove m n (Some g) arg = (Inl exc, Some g', [Resumed n arg])"
  by (simp add: getNextMove_def)

lemma getNextMove_proper:
  "next_of g arg = (r, g') \<Longrightarrow> proper r \<Longrightarrow>
   \<exists>v. r = IterValue v \<and> v \<noteq> JUndefined \<and>
       getNextMove m n (Some g) arg = (Inr v, Some g', [Resumed n arg])"
  by (cases r) (auto simp: getNextMove_def)

lemma getNextMove_improper:
  "next_of g arg = (r, g') \<Longrightarrow> improper r \<Longrightarrow>
   getNextMove m n (Some g) arg
     = (Inl (TypeError ''match._logError is not a function''), Some g', [Resumed n arg])"
  by (cases r) (auto simp: getNextMove_def logError_def)

text \<open>\<open>getNextMove\<close> returns a proper move or throws: it never returns \<open>undefined\<close>.\<close>

lemma getNextMove_result:
  assumes "getNextMove m n gen arg = (r, gen', ev)"
  shows "(\<exists>exc. r = Inl exc) \<or> r = Inr COOPERATE \<or> r = Inr DEFECT"
proof (cases gen)
  case None
  with assms show ?thesis by (auto simp: getNextMove_def)
next
  case (Some g)
  obtain a g' where nx: "next_of g arg = (a, g')" by (cases "next_of g arg")
  show ?thesis
  proof (cases a)
    case (IterThrow exc)
    with assms Some nx show ?thesis by (auto simp: getNextMove_def)
  next
    case (IterDone v)
    with assms Some nx show ?thesis by (auto simp: getNextMove_def logError_def)
  next
    case (IterValue v)
    with assms Some nx show ?thesis
      by (auto simp: getNextMove_def logError_def split: if_splits)
  qed
qed

lemma scoreChanges_nonneg: "0 \<le> fst (scoreChanges a b) \<and> 0 \<le> snd (scoreChanges a b)"
  by (simp add: scoreChanges_def)

lemma playRound_not_paused:
  "status m \<noteq> Paused \<Longrightarrow> advance m = m"
  by (cases "status m") (simp_all add: advance_def playRound_def)

lemma playRound_paused:
  assumes "status m = Paused"
    and "getNextMove (m\<lparr>status := Running\<rparr>) 1 (g1 m) (lastMove2 m) = (r1, gen1, ev1)"
    and "getNextMove (m\<lparr>status := Running, g1 := gen1\<rparr>) 2 (g2 m) (lastMove1 m) = (r2, gen2, ev2)"
  shows "playRound m =
     (case r1 of
        Inl exc \<Rightarrow> (Rejected exc, m\<lparr>status := Running, g1 := gen1\<rparr>, ev1)
      | Inr move1 \<Rightarrow>
          (case r2 of
             Inl exc \<Rightarrow> (Rejected exc, m\<lparr>status := Running, g1 := gen1, g2 := gen2\<rparr>, ev1 @ ev2)
           | Inr move2 \<Rightarrow>
               (Resolved,
                (if move1 = JUndefined \<or> move2 = JUndefined
                 then forfeitRound (m\<lparr>status := Running, g1 := gen1, g2 := gen2\<rparr>) move1 move2
                 else scoreRound (m\<lparr>status := Running, g1 := gen1, g2 := gen2\<rparr>) move1 move2),
                ev1 @ ev2)))"
  using assms by (simp add: playRound_def Let_def split: sum.splits)

text \<open>
  A round with two proper moves resolves, adds the score changes of the nested \<open>if\<close>,
  stores the moves in \<open>prevMove1/2\<close> and counts the round.
\<close>

lemma proper_round_scored:
  assumes "status m = Paused" and "g1 m = Some a" and "g2 m = Some b"
    and "next_of a (lastMove2 m) = (IterValue move1, a')"
    and "next_of b (lastMove1 m) = (IterValue move2, b')"
    and "move1 = COOPERATE \<or> move1 = DEFECT" and "move2 = COOPERATE \<or> move2 = DEFECT"
  shows "fst (playRound m) = Resolved
       \<and> score1 (advance m) = score1 m + fst (scoreChanges move1 move2)
       \<and> score2 (advance m) = score2 m + snd (scoreChanges move1 move2)
       \<and> round_ctr (advance m) = round_ctr m + 1
       \<and> prevMove1 (advance m) = move1 \<and> prevMove2 (advance m) = move2"
proof -
  have n1: "getNextMove (m\<lparr>status := Running\<rparr>) 1 (g1 m) (lastMove2 m)
              = (Inr move1, Some a', [Resumed 1 (lastMove2 m)])"
    using assms(2,4,6) by (auto simp: getNextMove_def)
  have n2: "getNextMove (m\<lparr>status := Running, g1 := Some a'\<rparr>) 2 (g2 m) (lastMove1 m)
              = (Inr move2, Some b', [Resumed 2 (lastMove1 m)])"
    using assms(3,5,7) by (auto simp: getNextMove_def)
  from assms(6,7) have "move1 \<noteq> JUndefined" "move2 \<noteq> JUndefined" by auto
  with playRound_paused [OF assms(1) n1 n2] show ?thesis
    by (simp add: advance_def scoreRound_def split: prod.splits)
qed

text \<open>One pass of the loop of the legacy \<open>play\<close> with two proper moves.\<close>

lemma legacy_loop_step:
  assumes "next_of c prev2 = (IterValue move1, c')" and "next_of d prev1 = (IterValue move2, d')"
    and "move1 = COOPERATE \<or> move1 = DEFECT" and "move2 = COOPERATE \<or> move2 = DEFECT"
  shows "legacy_loop (Suc k) c d prev1 prev2 s
           = legacy_loop k c' d' move1 move2 (legacy_adjust move1 move2 s)"
  using assms by (auto simp: legacy_getNextMove_def)

text \<open>
  C6: a round in which both strategies answer with a proper move is scored by the fixed
  table, (3, 3) for (COOPERATE, COOPERATE), (0, 5) for (COOPERATE, DEFECT), (5, 0) for
  (DEFECT, COOPERATE) and (1, 1) for (DEFECT, DEFECT), whatever the state of the match:
  \<open>playRound\<close> resolves and adds exactly these changes to the two scores; every pass of
  the loop of the legacy \<open>play\<close> adds them to its running scores; and \<open>play\<close> over one
  round returns them.
\<close>

theorem round_scored_by_payoff_table:
  assumes "status m = Paused" and "g1 m = Some a" and "g2 m = Some b"
    and "next_of a (lastMove2 m) = (IterValue move1, a')"
    and "next_of b (lastMove1 m) = (IterValue move2, b')"
    and "next_of c prev2 = (IterValue move1, c')"
    and "next_of d prev1 = (IterValue move2, d')"
    and "move1 = COOPERATE \<or> move1 = DEFECT" and "move2 = COOPERATE \<or> move2 = DEFECT"
  shows "let (d1, d2) =
           (if move1 = COOPERATE \<and> move2 = COOPERATE then (3, 3)
            else if move1 = COOPERATE \<and> move2 = DEFECT then (0, 5)
            else if move1 = DEFECT \<and> move2 = COOPERATE then (5, 0)
            else (1, 1))
         in fst (playRound m) = Resolved
          \<and> score1 (advance m) = score1 m + d1
          \<and> score2 (advance m) = score2 m + d2
          \<and> legacy_loop (Suc k) c d prev1 prev2 (s1, s2)
              = legacy_loop k c' d' move1 move2 (s1 + d1, s2 + d2)
          \<and> (player1 () = Inr c \<and> player2 () = Inr d
                \<and> prev1 = JUndefined \<and> prev2 = JUndefined
              \<longrightarrow> play player1 player2 1 = Inr (d1, d2))"
proof -
  note r = proper_round_scored [OF assms(1-5) assms(8,9)]
  note l = legacy_loop_step [OF assms(6-9)]
  from assms(8,9) r l show ?thesis
    by (auto simp: scoreChanges_table legacy_adjust_table play_def)
qed

theorem round_scored_by_payoff_table_witness:
  "status (fst (Match goodGuyGreg scumbagSteve 3)) = Paused
   \<and> g1 (fst (Match goodGuyGreg scumbagSteve 3)) = Some greg_gen
   \<and> g2 (fst (Match goodGuyGreg scumbagSteve 3)) = Some steve_gen
   \<and> next_of greg_gen JUndefined = (IterValue COOPERATE, greg_gen)
   \<and> next_of steve_gen JUndefined = (IterValue DEFECT, steve_gen)
   \<and> fst (playRound (fst (Match goodGuyGreg scumbagSteve 3))) = Resolved
   \<and> score1 (advance (fst (Match goodGuyGreg scumbagSteve 3))) = 0
   \<and> score2 (advance (fst (Match goodGuyGreg scumbagSteve 3))) = 5
   \<and> play goodGuyGreg scumbagSteve 1 = Inr (0, 5)"
proof -
  let ?m = "fst (Match goodGuyGreg scumbagSteve 3)"
  have m: "Match goodGuyGreg scumbagSteve 3 =
     (\<lparr>round_ctr = 0, roundLimit = 3, score1 = 0, score2 = 0,
       lastMove1 = JUndefined, lastMove2 = JUndefined,
       lastScore1 = JUndefined, lastScore2 = JUndefined,
       status = Paused, g1 = Some greg_gen, g2 = Some steve_gen,
       scoreChange1 = None, scoreChange2 = None,
       prevMove1 = JUndefined, prevMove2 = JUndefined\<rparr>, [Invoked 1, Invoked 2])"
    by (rule Match_both_succeed) (simp_all add: goodGuyGreg_def scumbagSteve_def)
  have h1: "status ?m = Paused" and h2: "g1 ?m = Some greg_gen"
    and h3: "g2 ?m = Some steve_gen"
    and h4: "next_of greg_gen (lastMove2 ?m) = (IterValue COOPERATE, greg_gen)"
    and h5: "next_of steve_gen (lastMove1 ?m) = (IterValue DEFECT, steve_gen)"
    and h6: "next_of greg_gen JUndefined = (IterValue COOPERATE, greg_gen)"
    and h7: "next_of steve_gen JUndefined = (IterValue DEFECT, steve_gen)"
    by (simp_all add: m)
  have h8: "COOPERATE = COOPERATE \<or> COOPERATE = DEFECT"
    and h9: "DEFECT = COOPERATE \<or> DEFECT = DEFECT"
    by simp_all
  have p1: "goodGuyGreg () = Inr greg_gen" and p2: "scumbagSteve () = Inr steve_gen"
    by (simp_all add: goodGuyGreg_def scumbagSteve_def)
  from round_scored_by_payoff_table [OF h1 h2 h3 h4 h5 h6 h7 h8 h9,
      of 0 0 0 goodGuyGreg scumbagSteve]
    h1 h2 h3 h6 h7 p1 p2
  show ?thesis by (simp add: m)
qed

text \<open>
  A round in which a strategy answers improperly: the first improper answer makes
  \<open>getNextMove\<close> throw the TypeError of the \<open>_logError\<close> call, the promise is rejected and
  the match stays in the state running. The forfeit of \<open>playRound\<close> is never reached.
\<close>

lemma improper_answer_rejects:
  assumes "status m = Paused" and "g1 m = Some a" and "g2 m = Some b"
    and "next_of a (lastMove2 m) = (r1, a')" and "next_of b (lastMove1 m) = (r2, b')"
    and "improper r1 \<or> (proper r1 \<and> improper r2)"
  shows "fst (playRound m) = Rejected (TypeError ''match._logError is not a function'')
       \<and> status (advance m) = Running
       \<and> round_ctr (advance m) = round_ctr m
       \<and> score1 (advance m) = score1 m \<and> score2 (advance m) = score2 m"
  using assms(6)
proof
  assume "improper r1"
  from getNextMove_improper [OF assms(4) this, of "m\<lparr>status := Running\<rparr>" 1] assms(1,2)
  show ?thesis by (simp add: playRound_def advance_def)
next
  assume pi: "proper r1 \<and> improper r2"
  then obtain v where
    n1: "getNextMove (m\<lparr>status := Running\<rparr>) 1 (Some a) (lastMove2 m)
           = (Inr v, Some a', [Resumed 1 (lastMove2 m)])"
    using getNextMove_proper [OF assms(4), of "m\<lparr>status := Running\<rparr>" 1] by auto
  from pi getNextMove_improper [OF assms(5), of "m\<lparr>status := Running, g1 := Some a'\<rparr>" 2]
  have n2: "getNextMove (m\<lparr>status := Running, g1 := Some a'\<rparr>) 2 (Some b) (lastMove1 m)
           = (Inl (TypeError ''match._logError is not a function''), Some b',
              [Resumed 2 (lastMove1 m)])"
    by simp
  from n1 n2 assms(1,2,3) show ?thesis by (simp add: playRound_def advance_def)
qed

text \<open>
  C3: a strategy that returns without yielding should forfeit: the match should be done
  at once, the promise resolved, and the other side credited 5 * (roundLimit - k).
  With \<open>goodGuyGreg\<close> against a generator that returns at once, over 3 rounds: the answer
  of player 2 is improper, the promise of the first \<open>playRound\<close> is rejected with the
  TypeError, the match is left running and not done, and player 1 keeps score 0 where
  the forfeit would give 15.
\<close>

theorem improper_answer_is_not_forfeited:
  "status (played goodGuyGreg quitter 3 0) = Paused
   \<and> g2 (played goodGuyGreg quitter 3 0) = Some quitter_gen
   \<and> improper (fst (next_of quitter_gen (lastMove1 (played goodGuyGreg quitter 3 0))))
   \<and> fst (playRound (played goodGuyGreg quitter 3 0))
       = Rejected (TypeError ''match._logError is not a function'')
   \<and> status (played goodGuyGreg quitter 3 1) = Running
   \<and> score1 (played goodGuyGreg quitter 3 1) = 0
   \<and> score2 (played goodGuyGreg quitter 3 1) = 0
   \<and> 5 * (roundLimit (played goodGuyGreg quitter 3 0)
            - round_ctr (played goodGuyGreg quitter 3 0)) = 15"
  by (simp add: run_defs goodGuyGreg_def quitter_def)

text \<open>No round-advance assigns \<open>lastMove1\<close> or \<open>lastMove2\<close>.\<close>

lemma advance_keeps_lastMove:
  "lastMove1 (advance m) = lastMove1 m \<and> lastMove2 (advance m) = lastMove2 m"
proof (cases "status m = Paused")
  case False
  with playRound_not_paused [of m] show ?thesis by simp
next
  case True
  obtain r1 gen1 ev1 where
    n1: "getNextMove (m\<lparr>status := Running\<rparr>) 1 (g1 m) (lastMove2 m) = (r1, gen1, ev1)"
    by (metis prod_cases3)
  obtain r2 gen2 ev2 where
    n2: "getNextMove (m\<lparr>status := Running, g1 := gen1\<rparr>) 2 (g2 m) (lastMove1 m) = (r2, gen2, ev2)"
    by (metis prod_cases3)
  from playRound_paused [OF True n1 n2] show ?thesis
    by (simp add: advance_def forfeitRound_def scoreRound_def Let_def
          split: sum.splits prod.splits)
qed


section \<open>Invariants of a match\<close>

lemma inv_step:
  assumes "inv_match rl f m"
  shows "inv_match rl f (advance m)
       \<and> score1 m \<le> score1 (advance m) \<and> score2 m \<le> score2 (advance m)"
proof (cases "status m = Paused")
  case False
  with assms playRound_not_paused [of m] show ?thesis by simp
next
  case True
  obtain r1 gen1 ev1 where
    n1: "getNextMove (m\<lparr>status := Running\<rparr>) 1 (g1 m) (lastMove2 m) = (r1, gen1, ev1)"
    by (metis prod_cases3)
  obtain r2 gen2 ev2 where
    n2: "getNextMove (m\<lparr>status := Running, g1 := gen1\<rparr>) 2 (g2 m) (lastMove1 m) = (r2, gen2, ev2)"
    by (metis prod_cases3)
  note pr = playRound_paused [OF True n1 n2]
  note c1 = getNextMove_result [OF n1]
  note c2 = getNextMove_result [OF n2]
  from assms True have rl: "roundLimit m = rl" and lo: "0 \<le> round_ctr m"
    and lt: "round_ctr m < rl" and nf: "\<not> f"
    by (auto simp: inv_match_def)
  show ?thesis
  proof (cases r1)
    case (Inl exc)
    with pr rl lo lt nf show ?thesis
      by (simp add: advance_def inv_match_def)
  next
    case m1: (Inr move1)
    show ?thesis
    proof (cases r2)
      case (Inl exc)
      with pr m1 rl lo lt nf show ?thesis
        by (simp add: advance_def inv_match_def)
    next
      case m2: (Inr move2)
      from c1 c2 m1 m2 have "move1 \<noteq> JUndefined" and "move2 \<noteq> JUndefined" by auto
      with pr m1 m2 rl lo lt nf scoreChanges_nonneg [of move1 move2] show ?thesis
        by (auto simp: advance_def inv_match_def scoreRound_def split: prod.splits)
    qed
  qed
qed

lemma inv_playRounds:
  "inv_match rl f m \<Longrightarrow>
   inv_match rl f (playRounds n m)
   \<and> score1 m \<le> score1 (playRounds n m) \<and> score2 m \<le> score2 (playRounds n m)"
proof (induction n arbitrary: m)
  case 0
  then show ?case by simp
next
  case (Suc n)
  from inv_step [OF Suc.prems]
  have st: "inv_match rl f (advance m)"
    and s1: "score1 m \<le> score1 (advance m)" and s2: "score2 m \<le> score2 (advance m)"
    by simp_all
  from Suc.IH [OF st] s1 s2 show ?case by auto
qed

lemma playRounds_add: "playRounds (a + b) m = playRounds b (playRounds a m)"
  by (induction a arbitrary: m) simp_all

lemma playRounds_not_paused: "status m \<noteq> Paused \<Longrightarrow> playRounds n m = m"
  by (induction n) (simp_all add: playRound_not_paused)

lemma inv_Match:
  assumes "0 < rounds"
  shows "inv_match rounds (constructionForfeited player1 player2)
           (fst (Match player1 player2 rounds))
       \<and> 0 \<le> score1 (fst (Match player1 player2 rounds))
       \<and> 0 \<le> score2 (fst (Match player1 player2 rounds))"
proof (cases "player1 ()")
  case (Inl exc)
  with assms show ?thesis
    by (simp add: Match_first_fails [of player1 exc] inv_match_def constructionForfeited_def)
next
  case p1: (Inr gen1)
  show ?thesis
  proof (cases "player2 ()")
    case (Inl exc)
    with assms p1 show ?thesis
      by (simp add: Match_second_fails [of player1 gen1 player2 exc] inv_match_def
            constructionForfeited_def)
  next
    case (Inr gen2)
    with assms p1 show ?thesis
      by (simp add: Match_both_succeed [of player1 gen1 player2 gen2] inv_match_def
            constructionForfeited_def)
  qed
qed

text \<open>
  What holds of every match constructed with a positive round limit, after any number
  of calls of \<open>playRound\<close>: the round counter is at most the round limit, the scores never
  decrease, and the match is done exactly when the round counter equals the round limit
  or a factory threw at construction.
\<close>

lemma match_bounds:
  assumes "0 < rounds" and "k \<le> n"
  shows "round_ctr (played player1 player2 rounds n) \<le> roundLimit (played player1 player2 rounds n)
       \<and> roundLimit (played player1 player2 rounds n) = rounds
       \<and> (status (played player1 player2 rounds n) = Done \<longleftrightarrow>
            round_ctr (played player1 player2 rounds n) = rounds
            \<or> constructionForfeited player1 player2)
       \<and> 0 \<le> score1 (played player1 player2 rounds 0)
       \<and> 0 \<le> score2 (played player1 player2 rounds 0)
       \<and> score1 (played player1 player2 rounds k) \<le> score1 (played player1 player2 rounds n)
       \<and> score2 (played player1 player2 rounds k) \<le> score2 (played player1 player2 rounds n)"
proof -
  let ?m0 = "fst (Match player1 player2 rounds)"
  let ?f0 = "constructionForfeited player1 player2"
  note i0 = inv_Match [OF assms(1), of player1 player2]
  then have inv0: "inv_match rounds ?f0 ?m0" by simp
  from inv_playRounds [OF inv0, of n]
  have invn: "inv_match rounds ?f0 (playRounds n ?m0)" by simp
  from inv_playRounds [OF inv0, of k]
  have invk: "inv_match rounds ?f0 (playRounds k ?m0)" by simp
  from assms(2) have "n = k + (n - k)" by simp
  then have split: "playRounds n ?m0 = playRounds (n - k) (playRounds k ?m0)"
    using playRounds_add [of k "n - k" ?m0] by simp
  from inv_playRounds [OF invk, of "n - k"] split
  have mono: "score1 (playRounds k ?m0) \<le> score1 (playRounds n ?m0)
            \<and> score2 (playRounds k ?m0) \<le> score2 (playRounds n ?m0)" by simp
  from invn i0 mono show ?thesis
    by (simp add: played_def inv_match_def)
qed

text \<open>
  C8: the match should be done as soon as a forfeit occurred. With \<open>goodGuyGreg\<close> against
  a generator that makes one move and then returns, over 3 rounds: after the first
  round the match is paused at round counter 1 and the next answer of player 2 is
  improper, which is a forfeit; after the second \<open>playRound\<close>, and after any number of
  further calls, the match is running, not done, at round counter 1 of 3.
\<close>

theorem forfeit_leaves_match_running:
  "status (played goodGuyGreg oneMove 3 1) = Paused
   \<and> round_ctr (played goodGuyGreg oneMove 3 1) = 1
   \<and> g2 (played goodGuyGreg oneMove 3 1) = Some quitter_gen
   \<and> improper (fst (next_of quitter_gen (lastMove1 (played goodGuyGreg oneMove 3 1))))
   \<and> status (played goodGuyGreg oneMove 3 (2 + n)) = Running
   \<and> round_ctr (played goodGuyGreg oneMove 3 (2 + n)) = 1
   \<and> roundLimit (played goodGuyGreg oneMove 3 (2 + n)) = 3"
proof -
  have one: "status (played goodGuyGreg oneMove 3 1) = Paused
      \<and> round_ctr (played goodGuyGreg oneMove 3 1) = 1
      \<and> g2 (played goodGuyGreg oneMove 3 1) = Some quitter_gen
      \<and> improper (fst (next_of quitter_gen (lastMove1 (played goodGuyGreg oneMove 3 1))))"
    by (simp add: run_defs goodGuyGreg_def oneMove_def oneMove_gen_def)
  have two: "status (played goodGuyGreg oneMove 3 2) = Running
      \<and> round_ctr (played goodGuyGreg oneMove 3 2) = 1
      \<and> roundLimit (played goodGuyGreg oneMove 3 2) = 3"
    by (simp add: run_defs goodGuyGreg_def oneMove_def oneMove_gen_def numeral_2_eq_2)
  have "played goodGuyGreg oneMove 3 (2 + n) = playRounds n (played goodGuyGreg oneMove 3 2)"
    using playRounds_add [of 2 n "fst (Match goodGuyGreg oneMove 3)"]
    by (simp only: played_def)
  with two have "played goodGuyGreg oneMove 3 (2 + n) = played goodGuyGreg oneMove 3 2"
    by (simp add: playRounds_not_paused)
  with one two show ?thesis by simp
qed


section \<open>Where the engine departs from its documentation\<close>

lemma lastMove_never_assigned:
  "lastMove1 (played player1 player2 rounds n) = JUndefined
   \<and> lastMove2 (played player1 player2 rounds n) = JUndefined"
proof -
  have keep: "lastMove1 (playRounds n m) = lastMove1 m \<and> lastMove2 (playRounds n m) = lastMove2 m"
    for m
    by (induction n arbitrary: m) (simp_all add: advance_keeps_lastMove)
  have "lastMove1 (fst (Match player1 player2 rounds)) = JUndefined
      \<and> lastMove2 (fst (Match player1 player2 rounds)) = JUndefined"
  proof (cases "player1 ()")
    case (Inl exc)
    then show ?thesis by (simp add: Match_first_fails [of player1 exc])
  next
    case p1: (Inr gen1)
    show ?thesis
    proof (cases "player2 ()")
      case (Inl exc)
      with p1 show ?thesis by (simp add: Match_second_fails [of player1 gen1 player2 exc])
    next
      case (Inr gen2)
      with p1 show ?thesis by (simp add: Match_both_succeed [of player1 gen1 player2 gen2])
    qed
  qed
  with keep show ?thesis by (simp add: played_def)
qed

text \<open>
  C1: every resume after the first should pass the opponent's previous move. The moves
  of a round are stored in \<open>prevMove1/2\<close>, but the next round reads \<open>lastMove1/2\<close>, which
  nothing assigns. With \<open>HighExpectationsAsianFather\<close> against \<open>goodGuyGreg\<close>: after the
  first round player 2's previous move is COOPERATE, yet the second \<open>playRound\<close> resumes
  both generators with \<open>undefined\<close>, the father leaves his loop and defects, and the score
  after two rounds is (8, 3). The legacy driver, which passes \<open>prev1/prev2\<close>, gives (6, 6).
\<close>

theorem resume_argument_stays_undefined:
  "prevMove2 (played HighExpectationsAsianFather goodGuyGreg 3 1) = COOPERATE
   \<and> lastMove2 (played HighExpectationsAsianFather goodGuyGreg 3 1) = JUndefined
   \<and> snd (snd (playRound (played HighExpectationsAsianFather goodGuyGreg 3 1)))
       = [Resumed 1 JUndefined, Resumed 2 JUndefined]
   \<and> score1 (played HighExpectationsAsianFather goodGuyGreg 3 2) = 8
   \<and> score2 (played HighExpectationsAsianFather goodGuyGreg 3 2) = 3
   \<and> play HighExpectationsAsianFather goodGuyGreg 2 = Inr (6, 6)"
  by (simp add: run_defs HighExpectationsAsianFather_def father_gen_def goodGuyGreg_def
        play_def legacy_getNextMove_def legacy_adjust_def numeral_2_eq_2)

text \<open>
  C5: a strategy whose resume throws should be absorbed as a forfeit, with the match
  either updated by a whole round or left as it was. With a first player that throws:
  the promise of \<open>playRound\<close> is rejected with the strategy's exception, the match stays
  in the state running with round counter and scores untouched, and every later
  \<open>playRound\<close> is refused as already running.
\<close>

theorem thrown_exception_leaves_match_running:
  "status (played thrower goodGuyGreg 3 0) = Paused
   \<and> fst (playRound (played thrower goodGuyGreg 3 0)) = Rejected (Error ''boom'')
   \<and> status (played thrower goodGuyGreg 3 1) = Running
   \<and> round_ctr (played thrower goodGuyGreg 3 1) = 0
   \<and> score1 (played thrower goodGuyGreg 3 1) = 0
   \<and> score2 (played thrower goodGuyGreg 3 1) = 0
   \<and> fst (playRound (played thrower goodGuyGreg 3 1))
       = Throws (Error ''Dilemma.Match.playRound: The match is already running.'')"
  by (simp add: run_defs thrower_def thrower_gen_def goodGuyGreg_def)

lemmas tour_defs = Tournament_def getMatch_def js_index_def

text \<open>
  C2: \<open>getScore(i)\<close> should be the sum of player i's scores over the matches of player i.
  It adds the Match objects themselves: in a tournament of two players the result for
  player 1 is the string \<open>0[object Object]\<close>, before any round, where the sum is 0, and
  after the one match was played to its end, where the sum is 15.
\<close>

theorem getScore_concatenates_objects:
  "getScore (Tournament [goodGuyGreg, scumbagSteve] 3) 1 = Inr (JStr ''0[object Object]'')
   \<and> attributedScore (Tournament [goodGuyGreg, scumbagSteve] 3) 1 = 0
   \<and> getScore ((Tournament [goodGuyGreg, scumbagSteve] 3)
        \<lparr>matches := [[], [played scumbagSteve goodGuyGreg 3 3]]\<rparr>) 1
       = Inr (JStr ''0[object Object]'')
   \<and> attributedScore ((Tournament [goodGuyGreg, scumbagSteve] 3)
        \<lparr>matches := [[], [played scumbagSteve goodGuyGreg 3 3]]\<rparr>) 1 = 15"
  by (simp add: Tournament_def getScore_def cell_def attributedScore_def run_defs
        goodGuyGreg_def scumbagSteve_def digits.simps numeral_3_eq_3)

text \<open>
  What \<open>getMatch\<close> does get right: a pair in range gives the stored match, and a number
  that is not an integer, a first index beyond the roster or a second index not below
  the first gives the error.
\<close>

lemma getMatch_in_range:
  assumes "j < i" and "i < length ps"
  shows "getMatch (Tournament ps rounds) (of_nat i) (of_nat j)
           = Inr (Some (fst (Match (ps ! i) (ps ! j) rounds)))"
  using assms by (simp add: tour_defs)

lemma getMatch_guard:
  assumes "of_int \<lfloor>i1\<rfloor> \<noteq> i1 \<or> of_nat (length (players t)) \<le> i1
         \<or> of_int \<lfloor>i2\<rfloor> \<noteq> i2 \<or> i1 \<le> i2"
  shows "getMatch t i1 i2 = Inl (Error ''Tournament.getMatch: invalid argument'')"
  using assms by (auto simp: getMatch_def)

text \<open>
  C9: every pair of arguments outside 0 \<le> j < i < N should give the invalid-argument
  error. The guard has no lower bound: in a tournament of two players \<open>getMatch(1, -1)\<close>
  passes it and returns \<open>undefined\<close>, and \<open>getMatch(-1, -2)\<close> passes it and fails with a
  TypeError instead; \<open>getMatch(1, 0)\<close> returns the stored match.
\<close>

theorem getMatch_accepts_negative_index:
  "getMatch (Tournament [goodGuyGreg, scumbagSteve] 3) 1 (- 1) = Inr None
   \<and> getMatch (Tournament [goodGuyGreg, scumbagSteve] 3) (- 1) (- 2)
       = Inl (TypeError ''this.matches[i1] is undefined'')
   \<and> getMatch (Tournament [goodGuyGreg, scumbagSteve] 3) 1 0
       = Inr (Some (fst (Match scumbagSteve goodGuyGreg 3)))"
  by (simp add: tour_defs)

text \<open>
  At the pair (1, -1) the second index is negative and the answer is not the
  invalid-argument error.
\<close>

theorem getMatch_accepts_negative_index_witness:
  "(- 1 :: rat) < 0
   \<and> getMatch (Tournament [goodGuyGreg, scumbagSteve] 3) 1 (- 1)
       \<noteq> Inl (Error ''Tournament.getMatch: invalid argument'')"
  using getMatch_accepts_negative_index by simp

end
